theory Spec2Isabelle
  imports Main "HOL-Library.AList" "HOL-Library.List_Lexorder"
    "HOL-Library.Product_Lexorder"
begin

section \<open>Directed motifs of order 3 and 4: the driver of \<open>hypergraphx/motifs/directed_motifs.py\<close>\<close>

text \<open>
  The file under verification holds one public function, \<open>compute_directed_motifs\<close>, with two
  nested helpers \<open>_motifs_order_3\<close> and \<open>_motifs_order_4\<close>. Everything else it calls lives in
  other modules of the package: the two classification passes, the configuration model, the
  deviation helpers and the hypergraph container. Those are taken as parameters of the model
  (a record of collaborators), so that every theorem about the driver holds whatever they
  compute.
\<close>

subsection \<open>Data\<close>

text \<open>
  A Motif Count Table as the code handles it: a Python list of \<open>(signature, count)\<close> pairs,
  read by position (\<open>full[i][0]\<close>, \<open>full[i][1]\<close>).
\<close>

type_synonym 's table = "('s \<times> int) list"

text \<open>
  The exceptions that can leave \<open>compute_directed_motifs\<close>: the \<open>ValueError\<close> of line 70 with
  its message, an \<open>IndexError\<close> of the indexing in line 96, the \<open>UnboundLocalError\<close> that
  line 87 would raise if neither branch of lines 82-85 had bound \<open>m1\<close>, and whatever the
  configuration model raises, carried as it is.
\<close>

datatype 'x error =
    ValueError string
  | IndexError
  | UnboundLocalError
  | Raised 'x

text \<open>
  The calls the driver makes to its collaborators, with their arguments, in the order they
  happen. The log is the model of "what has been performed so far".
\<close>

datatype ('e, 'v) call =
    GetEdges "int option"
  | HoFull "'e list" nat
  | HoNotFull "'e list" nat 'v
  | ConfigModel "'e list"
  | DiffSum
  | NormVector

text \<open>
  The world outside the function: the state of the random generator the configuration model
  draws from, and the log of collaborator calls.
\<close>

record ('g, 'e, 'v) world =
  rng :: 'g
  calls :: "('e, 'v) call list"

definition note_call :: "('e, 'v) call \<Rightarrow> ('g, 'e, 'v) world \<Rightarrow> ('g, 'e, 'v) world" where
  "note_call x w = w\<lparr>calls := calls w @ [x]\<rparr>"

text \<open>
  The collaborators, named as the source imports them:
  \<^item> \<open>get_edges h up_to\<close> is the method \<open>hypergraph.get_edges(up_to=...)\<close>, with
    \<open>None\<close> for the call without argument;
  \<^item> \<open>directed_motifs_ho_full edges N\<close> returns a table and a Visited-State;
  \<^item> \<open>directed_motifs_ho_not_full edges N visited\<close> likewise;
  \<^item> \<open>directed_configuration_model g edges\<close> draws a randomized edge list from generator
    state \<open>g\<close> and returns it with the next state, or raises;
  \<^item> \<open>directed_diff_sum observed config_model\<close> and \<open>norm_vector delta\<close> return sequences
    read by position.
\<close>

record ('h, 'e, 's, 'v, 'g, 'x, 'd, 'n) collab =
  get_edges :: "'h \<Rightarrow> int option \<Rightarrow> 'e list"
  directed_motifs_ho_full :: "'e list \<Rightarrow> nat \<Rightarrow> 's table \<times> 'v"
  directed_motifs_ho_not_full :: "'e list \<Rightarrow> nat \<Rightarrow> 'v \<Rightarrow> 's table \<times> 'v"
  directed_configuration_model :: "'g \<Rightarrow> 'e list \<Rightarrow> 'x + ('e list \<times> 'g)"
  directed_diff_sum :: "'s table \<Rightarrow> 's table list \<Rightarrow> 'd list"
  norm_vector :: "'d list \<Rightarrow> 'n list"

text \<open>The dict returned by \<open>compute_directed_motifs\<close>, one field per key.\<close>

record ('s, 'n) output_dict =
  observed :: "'s table"
  config_model :: "'s table list"
  norm_delta :: "('s \<times> 'n) list"

subsection \<open>A Python dict, in insertion order\<close>

text \<open>
  \<open>mappa[k] = v\<close> on a Python dict replaces the value of a key that is present, leaving the
  key where it was first inserted, and appends a new key at the end. That is
  \<open>AList.update\<close> on an association list.
\<close>

definition dict_set :: "('k \<times> 'c) list \<Rightarrow> 'k \<Rightarrow> 'c \<Rightarrow> ('k \<times> 'c) list" where
  "dict_set m k v = AList.update k v m"

definition dict_keys :: "('k \<times> 'c) list \<Rightarrow> 'k list" where
  "dict_keys m = map fst m"

definition dict_get :: "('k \<times> 'c) list \<Rightarrow> 'k \<Rightarrow> 'c" where
  "dict_get m k = the (map_of m k)"

subsection \<open>The nested helpers\<close>

text \<open>Lines 32-39: one call of the full pass, and a copy of its table pair by pair.\<close>

definition motifs_order_3 ::
  "('h, 'e, 's, 'v, 'g, 'x, 'd, 'n) collab \<Rightarrow> 'e list \<Rightarrow> ('g, 'e, 'v) world
     \<Rightarrow> 's table \<times> ('g, 'e, 'v) world" where
  "motifs_order_3 c edges w =
     (let (full, visited) = directed_motifs_ho_full c edges 3;
          w1 = note_call (HoFull edges 3) w;
          res = fold (\<lambda>i res. res @ [(fst (full ! i), snd (full ! i))]) [0..<length full] []
      in (res, w1))"

text \<open>
  Lines 41-55: the full pass, then the not-full pass on the same edges with the
  Visited-State the full pass returned; both tables written into one dict, full first; the
  dict read back as a list of pairs.
\<close>

definition motifs_order_4 ::
  "('h, 'e, 's, 'v, 'g, 'x, 'd, 'n) collab \<Rightarrow> 'e list \<Rightarrow> ('g, 'e, 'v) world
     \<Rightarrow> 's table \<times> ('g, 'e, 'v) world" where
  "motifs_order_4 c edges w =
     (let (full, visited) = directed_motifs_ho_full c edges 4;
          w1 = note_call (HoFull edges 4) w;
          (not_full, visited') = directed_motifs_ho_not_full c edges 4 visited;
          w2 = note_call (HoNotFull edges 4 visited) w1;
          mappa = [];
          mappa = fold (\<lambda>i m. dict_set m (fst (full ! i)) (snd (full ! i)))
                    [0..<length full] mappa;
          mappa = fold (\<lambda>i m. dict_set m (fst (not_full ! i)) (snd (not_full ! i)))
                    [0..<length not_full] mappa;
          res = fold (\<lambda>key res. res @ [(key, dict_get mappa key)]) (dict_keys mappa) []
      in (res, w2))"

subsection \<open>The configuration-model rounds\<close>

text \<open>
  Lines 78-87, one round per unit of the counter: \<open>get_edges()\<close> without argument, one draw
  of the configuration model, classification of what it returned, append. An exception of
  the configuration model leaves the loop and the function at once.
\<close>

fun config_rounds ::
  "('h, 'e, 's, 'v, 'g, 'x, 'd, 'n) collab \<Rightarrow> 'h \<Rightarrow> int \<Rightarrow> nat \<Rightarrow> 's table list
     \<Rightarrow> ('g, 'e, 'v) world \<Rightarrow> ('x error + 's table list) \<times> ('g, 'e, 'v) world" where
  "config_rounds c h ord 0 results w = (Inr results, w)"
| "config_rounds c h ord (Suc n) results w =
     (let all_edges = get_edges c h None;
          w1 = note_call (GetEdges None) w;
          w2 = note_call (ConfigModel all_edges) w1
      in case directed_configuration_model c (rng w2) all_edges of
           Inl x \<Rightarrow> (Inl (Raised x), w2)
         | Inr (e1, g) \<Rightarrow>
             (let w3 = w2\<lparr>rng := g\<rparr> in
              if ord = 3 then
                (let (m1, w4) = motifs_order_3 c e1 w3
                 in config_rounds c h ord n (results @ [m1]) w4)
              else if ord = 4 then
                (let (m1, w4) = motifs_order_4 c e1 w3
                 in config_rounds c h ord n (results @ [m1]) w4)
              else (Inl UnboundLocalError, w3)))"

subsection \<open>The deviation list\<close>

text \<open>
  Lines 95-96: for each index of \<open>delta\<close>, the signature at that index of the observed
  table paired with the value at that index of the normalized vector. Reading either list
  past its end raises \<open>IndexError\<close>, which is \<open>None\<close> here and becomes the error
  in the caller.
\<close>

fun norm_delta_loop ::
  "'s table \<Rightarrow> 'n list \<Rightarrow> nat list \<Rightarrow> ('s \<times> 'n) list \<Rightarrow> ('s \<times> 'n) list option" where
  "norm_delta_loop obs nv [] acc = Some acc"
| "norm_delta_loop obs nv (i # is) acc =
     (if i < length obs \<and> i < length nv
      then norm_delta_loop obs nv is (acc @ [(fst (obs ! i), nv ! i)])
      else None)"

subsection \<open>The public function\<close>

text \<open>
  \<open>compute_directed_motifs(hypergraph, order=3, runs_config_model=10)\<close>: an argument left
  out is \<open>None\<close> here and takes the default of the signature. The parameter \<open>order\<close> is
  \<open>ord\<close> here. \<open>range(ROUNDS)\<close> is empty for a count below one. The \<open>print\<close> calls are
  left out.
\<close>

definition compute_directed_motifs ::
  "('h, 'e, 's, 'v, 'g, 'x, 'd, 'n) collab \<Rightarrow> 'h \<Rightarrow> int option \<Rightarrow> int option
     \<Rightarrow> ('g, 'e, 'v) world \<Rightarrow> ('x error + ('s, 'n) output_dict) \<times> ('g, 'e, 'v) world" where
  "compute_directed_motifs c hypergraph order_arg runs_arg w =
     (let ord = (case order_arg of None \<Rightarrow> 3 | Some k \<Rightarrow> k);
          runs_config_model = (case runs_arg of None \<Rightarrow> 10 | Some r \<Rightarrow> r);
          edges = get_edges c hypergraph (Some ord);
          w0 = note_call (GetEdges (Some ord)) w
      in case (if ord = 3 then Inr (motifs_order_3 c edges w0)
               else if ord = 4 then Inr (motifs_order_4 c edges w0)
               else Inl (ValueError ''Exact computation of motifs of order > 5 is not available.''))
         of Inl e \<Rightarrow> (Inl e, w0)
          | Inr (obs, w1) \<Rightarrow>
              (case config_rounds c hypergraph ord (nat runs_config_model) [] w1 of
                 (Inl e, w2) \<Rightarrow> (Inl e, w2)
               | (Inr results, w2) \<Rightarrow>
                   (let delta = directed_diff_sum c obs results;
                        w3 = note_call DiffSum w2;
                        nv = norm_vector c delta;
                        w4 = note_call NormVector w3
                    in case norm_delta_loop obs nv [0..<length delta] [] of
                         None \<Rightarrow> (Inl IndexError, w4)
                       | Some nd \<Rightarrow>
                           (Inr \<lparr>observed = obs, config_model = results, norm_delta = nd\<rparr>,
                            w4))))"

section \<open>Vocabulary for the statements\<close>

text \<open>
  The randomized edge lists of \<open>n\<close> successive rounds, first round first: each round draws
  from the generator state the round before left, always from the same edge list. The list
  stops at the first draw that raises.
\<close>

fun draws ::
  "('h, 'e, 's, 'v, 'g, 'x, 'd, 'n) collab \<Rightarrow> 'e list \<Rightarrow> nat \<Rightarrow> 'g \<Rightarrow> 'e list list" where
  "draws c es 0 g = []"
| "draws c es (Suc n) g =
     (case directed_configuration_model c g es of
        Inl x \<Rightarrow> []
      | Inr (e1, g') \<Rightarrow> e1 # draws c es n g')"

text \<open>The exception, if any, that ends those \<open>n\<close> rounds.\<close>

fun first_failure ::
  "('h, 'e, 's, 'v, 'g, 'x, 'd, 'n) collab \<Rightarrow> 'e list \<Rightarrow> nat \<Rightarrow> 'g \<Rightarrow> 'x option" where
  "first_failure c es 0 g = None"
| "first_failure c es (Suc n) g =
     (case directed_configuration_model c g es of
        Inl x \<Rightarrow> Some x
      | Inr (e1, g') \<Rightarrow> first_failure c es n g')"

text \<open>
  The calls one classification makes at a supported order, and the calls of one whole round
  that drew \<open>e1\<close>.
\<close>

definition classification_calls ::
  "('h, 'e, 's, 'v, 'g, 'x, 'd, 'n) collab \<Rightarrow> int \<Rightarrow> 'e list \<Rightarrow> ('e, 'v) call list" where
  "classification_calls c ord e =
     (if ord = 3 then [HoFull e 3]
      else [HoFull e 4, HoNotFull e 4 (snd (directed_motifs_ho_full c e 4))])"

definition round_calls ::
  "('h, 'e, 's, 'v, 'g, 'x, 'd, 'n) collab \<Rightarrow> int \<Rightarrow> 'e list \<Rightarrow> 'e list \<Rightarrow> ('e, 'v) call list" where
  "round_calls c ord all_edges e1 =
     [GetEdges None, ConfigModel all_edges] @ classification_calls c ord e1"

text \<open>The world after a round that drew \<open>e1\<close> and left the generator in state \<open>g\<close>.\<close>

definition after_draw ::
  "('h, 'e, 's, 'v, 'g, 'x, 'd, 'n) collab \<Rightarrow> 'h \<Rightarrow> int \<Rightarrow> 'e list \<Rightarrow> 'g
     \<Rightarrow> ('g, 'e, 'v) world \<Rightarrow> ('g, 'e, 'v) world" where
  "after_draw c h ord e1 g w =
     snd ((if ord = 3 then motifs_order_3 c e1 else motifs_order_4 c e1)
            ((note_call (ConfigModel (get_edges c h None)) (note_call (GetEdges None) w))
               \<lparr>rng := g\<rparr>))"

text \<open>Which entries of the log are draws, classification passes, not-full passes.\<close>

fun is_config_model_call :: "('e, 'v) call \<Rightarrow> bool" where
  "is_config_model_call (ConfigModel es) = True"
| "is_config_model_call x = False"

fun is_classification_call :: "('e, 'v) call \<Rightarrow> bool" where
  "is_classification_call (HoFull es k) = True"
| "is_classification_call (HoNotFull es k v) = True"
| "is_classification_call x = False"

fun is_not_full_call :: "('e, 'v) call \<Rightarrow> bool" where
  "is_not_full_call (HoNotFull es k v) = True"
| "is_not_full_call x = False"

section \<open>The collaborators as the specification describes them\<close>

text \<open>
  None of the collaborators is among the source files at hand. The definitions of this
  section follow the specification's description of them; they give the driver a concrete
  instance to run on, and the order-4 passes something to be disjoint about.
\<close>

type_synonym node = int
type_synonym edge = "node list \<times> node list"
type_synonym signature = "(nat list \<times> nat list) list"

text \<open>
  Modelled from the spec: the hypergraph container (section 6). \<open>get_edges()\<close> is the full
  edge list, \<open>get_edges(up_to=k)\<close> the edges whose total node count is at most \<open>k\<close>. An edge
  is a (Source, Target) pair; each side is a list standing for the set of its nodes.
\<close>

record directed_hypergraph =
  edge_list :: "edge list"

definition edge_nodes :: "edge \<Rightarrow> node list" where
  "edge_nodes e = remdups (fst e @ snd e)"

definition get_edges_spec :: "directed_hypergraph \<Rightarrow> int option \<Rightarrow> edge list" where
  "get_edges_spec h up_to =
     (case up_to of
        None \<Rightarrow> edge_list h
      | Some k \<Rightarrow> filter (\<lambda>e. int (length (edge_nodes e)) \<le> k) (edge_list h))"

text \<open>
  Modelled from the spec: the Subset Enumerator (sections 4.1 and 9). The Node Subsets of
  size \<open>k\<close>, each a sorted list, are drawn from the nodes the edges touch; the Induced
  Edge Set of a subset is the edges lying wholly inside it. A subset is of interest when
  some hyperedge, or a union of hyperedges, touches exactly its nodes: either its Induced
  Edge Set holds a hyperedge whose own node count is the subset's size (the subset is
  full), or two or more smaller hyperedges of it jointly cover it.
\<close>

definition node_universe :: "edge list \<Rightarrow> node list" where
  "node_universe es = sort (remdups (concat (map edge_nodes es)))"

definition induced_edges :: "edge list \<Rightarrow> node list \<Rightarrow> edge list" where
  "induced_edges es U = filter (\<lambda>e. list_all (\<lambda>x. x \<in> set U) (edge_nodes e)) es"

definition k_subsets :: "edge list \<Rightarrow> nat \<Rightarrow> node list list" where
  "k_subsets es k = filter (\<lambda>U. length U = k) (subseqs (node_universe es))"

definition has_spanning_edge :: "edge list \<Rightarrow> nat \<Rightarrow> node list \<Rightarrow> bool" where
  "has_spanning_edge es k U = list_ex (\<lambda>e. length (edge_nodes e) = k) (induced_edges es U)"

definition smaller_edges :: "edge list \<Rightarrow> nat \<Rightarrow> node list \<Rightarrow> edge list" where
  "smaller_edges es k U = filter (\<lambda>e. length (edge_nodes e) < k) (induced_edges es U)"

definition covered_by_smaller :: "edge list \<Rightarrow> nat \<Rightarrow> node list \<Rightarrow> bool" where
  "covered_by_smaller es k U =
     (2 \<le> length (smaller_edges es k U)
      \<and> list_all (\<lambda>x. x \<in> set (concat (map edge_nodes (smaller_edges es k U)))) U)"


text \<open>
  Modelled from the spec: the Pattern Canonicalizer (section 4.2). Every permutation of the
  subset relabels the nodes by their position in it; the relabelled edges are sorted; the
  signature is the least such serialization.
\<close>

fun interleave :: "'a \<Rightarrow> 'a list \<Rightarrow> 'a list list" where
  "interleave x [] = [[x]]"
| "interleave x (y # ys) = (x # y # ys) # map ((#) y) (interleave x ys)"

fun permutations_of :: "'a list \<Rightarrow> 'a list list" where
  "permutations_of [] = [[]]"
| "permutations_of (x # xs) = concat (map (interleave x) (permutations_of xs))"

definition position_in :: "node list \<Rightarrow> node \<Rightarrow> nat" where
  "position_in p x = length (takeWhile (\<lambda>y. y \<noteq> x) p)"

definition relabel :: "node list \<Rightarrow> edge \<Rightarrow> nat list \<times> nat list" where
  "relabel p e =
     (sort (remdups (map (position_in p) (fst e))), sort (remdups (map (position_in p) (snd e))))"

definition canonical_signature :: "node list \<Rightarrow> edge list \<Rightarrow> signature" where
  "canonical_signature U E =
     (let ss = map (\<lambda>p. sort (map (relabel p) E)) (permutations_of U)
      in fold min (tl ss) (hd ss))"

text \<open>
  Modelled from the spec: the tally of a Motif Count Table (section 4.3), one more
  occurrence of its class for every subset classified.
\<close>

definition tally :: "signature list \<Rightarrow> signature table" where
  "tally sigs =
     fold (\<lambda>s m. dict_set m s (case map_of m s of None \<Rightarrow> 1 | Some n \<Rightarrow> n + 1)) sigs []"

text \<open>
  Modelled from the spec: the two passes \<open>_directed_motifs_ho_full\<close> and
  \<open>_directed_motifs_ho_not_full\<close> (sections 3, 4.3 and 9). The full pass classifies the
  subsets whose Induced Edge Set holds a hyperedge spanning the whole subset and records
  each in the Visited-State. The not-full pass enumerates the subsets that two or more
  smaller hyperedges jointly cover, leaves out every subset of the Visited-State it is
  given, classifies the rest and records them in turn. That a subset with a spanning
  hyperedge is not classified a second time is the Visited-State's doing.
\<close>

definition full_pass_subsets :: "edge list \<Rightarrow> nat \<Rightarrow> node list list" where
  "full_pass_subsets es k = filter (has_spanning_edge es k) (k_subsets es k)"

definition not_full_pass_subsets :: "edge list \<Rightarrow> nat \<Rightarrow> node list list \<Rightarrow> node list list" where
  "not_full_pass_subsets es k visited =
     filter (\<lambda>U. covered_by_smaller es k U \<and> U \<notin> set visited) (k_subsets es k)"

definition ho_full_spec :: "edge list \<Rightarrow> nat \<Rightarrow> signature table \<times> node list list" where
  "ho_full_spec es k =
     (let subsets = full_pass_subsets es k
      in (tally (map (\<lambda>U. canonical_signature U (induced_edges es U)) subsets), subsets))"

definition ho_not_full_spec ::
  "edge list \<Rightarrow> nat \<Rightarrow> node list list \<Rightarrow> signature table \<times> node list list" where
  "ho_not_full_spec es k visited =
     (let subsets = not_full_pass_subsets es k visited
      in (tally (map (\<lambda>U. canonical_signature U (induced_edges es U)) subsets),
          visited @ subsets))"

text \<open>
  Modelled from the spec: the Deviation Aggregator (section 4.5). For each class of the
  observed table, the vector over the rounds of the round's count (0 where the round lacks
  the class) minus the observed count; then a vector norm of each vector. The norm is a
  parameter: the Euclidean norm the specification names as the default is a floating-point
  computation, and concrete runs here take the sum of absolute values, which is exact.
\<close>

definition count_of :: "'s table \<Rightarrow> 's \<Rightarrow> int" where
  "count_of t s = (case map_of t s of None \<Rightarrow> 0 | Some n \<Rightarrow> n)"

definition directed_diff_sum_spec :: "'s table \<Rightarrow> 's table list \<Rightarrow> int list list" where
  "directed_diff_sum_spec obs rounds =
     map (\<lambda>p. map (\<lambda>t. count_of t (fst p) - snd p) rounds) obs"

definition norm_vector_spec :: "(int list \<Rightarrow> 'n) \<Rightarrow> int list list \<Rightarrow> 'n list" where
  "norm_vector_spec nrm delta = map nrm delta"

definition taxicab_norm :: "int list \<Rightarrow> int" where
  "taxicab_norm v = sum_list (map abs v)"

text \<open>
  The configuration model is an external collaborator for the specification too (section
  6): it returns a randomized edge list or fails. The stand-in used for concrete runs reads
  its outcomes off the generator state, a list of the outcomes still to come; with none
  left it fails.
\<close>

definition scripted_model ::
  "(string + edge list) list \<Rightarrow> edge list \<Rightarrow> string + (edge list \<times> (string + edge list) list)" where
  "scripted_model g es =
     (case g of
        [] \<Rightarrow> Inl ''DegreeSequenceInfeasibleError''
      | Inl x # g' \<Rightarrow> Inl x
      | Inr e1 # g' \<Rightarrow> Inr (e1, g'))"

definition spec_collab ::
  "(int list \<Rightarrow> 'n) \<Rightarrow>
   (directed_hypergraph, edge, signature, node list list, (string + edge list) list, string,
    int list, 'n) collab" where
  "spec_collab nrm =
     \<lparr>get_edges = get_edges_spec,
      directed_motifs_ho_full = ho_full_spec,
      directed_motifs_ho_not_full = ho_not_full_spec,
      directed_configuration_model = scripted_model,
      directed_diff_sum = directed_diff_sum_spec,
      norm_vector = norm_vector_spec nrm\<rparr>"



section \<open>Concrete inputs\<close>

text \<open>
  The edge list of the specification's determinism scenario, a hypergraph holding it, a
  larger hypergraph with subsets for both order-4 passes, one more in which the subset
  \<open>[1, 2, 3, 4]\<close> both holds a spanning hyperedge and is covered by two smaller ones, and
  worlds whose generator has two draws to give, the second of them a failure in
  \<open>failing_world\<close>.
\<close>

definition scenario_edges :: "edge list" where
  "scenario_edges = [([1, 2], [3]), ([2, 3], [1, 4])]"

definition scenario_hypergraph :: directed_hypergraph where
  "scenario_hypergraph = \<lparr>edge_list = scenario_edges\<rparr>"

definition five_node_hypergraph :: directed_hypergraph where
  "five_node_hypergraph =
     \<lparr>edge_list = [([1, 2], [3]), ([2, 3], [1, 4]), ([5], [1]), ([5], [2, 3])]\<rparr>"


definition two_draws_world ::
  "((string + edge list) list, edge, node list list) world" where
  "two_draws_world =
     \<lparr>rng = [Inr [([1, 3], [2]), ([2, 3], [1, 4])], Inr [([1, 2], [4]), ([2], [1])]],
      calls = []\<rparr>"

definition failing_world ::
  "((string + edge list) list, edge, node list list) world" where
  "failing_world =
     \<lparr>rng = [Inr [([1, 3], [2]), ([2, 3], [1, 4])], Inl ''DegreeSequenceInfeasibleError''],
      calls = []\<rparr>"

definition ten_draws_world ::
  "((string + edge list) list, edge, node list list) world" where
  "ten_draws_world = \<lparr>rng = replicate 10 (Inr [([1, 3], [2])]), calls = []\<rparr>"

section \<open>Basic facts\<close>

lemma fold_snoc_map: "fold (\<lambda>i acc. acc @ [f i]) xs acc0 = acc0 @ map f xs"
  by (induction xs arbitrary: acc0) simp_all

lemma motifs_order_3_eq:
  "motifs_order_3 c edges w =
     (fst (directed_motifs_ho_full c edges 3), note_call (HoFull edges 3) w)"
  by (simp add: motifs_order_3_def fold_snoc_map map_nth split: prod.splits)

lemma fold_dict_set_list:
  "fold (\<lambda>i m. dict_set m (fst (xs ! i)) (snd (xs ! i))) [0..<length xs] m0
     = fold (\<lambda>p m. dict_set m (fst p) (snd p)) xs m0"
proof -
  have "fold (\<lambda>i m. dict_set m (fst (xs ! i)) (snd (xs ! i))) [0..<length xs] m0
        = fold (\<lambda>p m. dict_set m (fst p) (snd p)) (map ((!) xs) [0..<length xs]) m0"
    by (simp add: fold_map comp_def)
  then show ?thesis by (simp add: map_nth)
qed


lemma fold_dict_set_distinct:
  "distinct (map fst m0) \<Longrightarrow> distinct (map fst (fold (\<lambda>p m. dict_set m (fst p) (snd p)) xs m0))"
  by (induction xs arbitrary: m0) (simp_all add: dict_set_def distinct_update)

lemma read_back:
  assumes "distinct (map fst m)"
  shows "fold (\<lambda>key res. res @ [(key, dict_get m key)]) (dict_keys m) [] = m"
proof -
  have "map (\<lambda>p. (fst p, dict_get m (fst p))) m = m"
  proof (rule map_idI)
    fix p assume "p \<in> set m"
    then have "(fst p, snd p) \<in> set m" by simp
    with assms have "map_of m (fst p) = Some (snd p)"
      by (rule map_of_is_SomeI)
    then show "(fst p, dict_get m (fst p)) = p"
      by (simp add: dict_get_def)
  qed
  then show ?thesis
    by (simp add: fold_snoc_map dict_keys_def comp_def)
qed


lemma motifs_order_4_eq:
  "motifs_order_4 c edges w =
     (fold (\<lambda>p m. dict_set m (fst p) (snd p))
        (fst (directed_motifs_ho_full c edges 4)
         @ fst (directed_motifs_ho_not_full c edges 4 (snd (directed_motifs_ho_full c edges 4))))
        [],
      note_call (HoNotFull edges 4 (snd (directed_motifs_ho_full c edges 4)))
        (note_call (HoFull edges 4) w))"
  by (simp add: motifs_order_4_def fold_dict_set_list read_back fold_dict_set_distinct
        split: prod.splits)

lemma rng_note_call [simp]: "rng (note_call x w) = rng w"
  by (simp add: note_call_def)

lemma calls_note_call [simp]: "calls (note_call x w) = calls w @ [x]"
  by (simp add: note_call_def)

lemma calls_rng_update [simp]: "calls (w\<lparr>rng := g\<rparr>) = calls w"
  by simp

lemma motifs_order_3_calls:
  "calls (snd (motifs_order_3 c e w)) = calls w @ classification_calls c 3 e"
  by (simp add: motifs_order_3_eq classification_calls_def)

lemma motifs_order_4_calls:
  "calls (snd (motifs_order_4 c e w)) = calls w @ classification_calls c 4 e"
  by (simp add: motifs_order_4_eq classification_calls_def)

lemma motifs_order_3_rng: "rng (snd (motifs_order_3 c e w)) = rng w"
  by (simp add: motifs_order_3_eq)

lemma motifs_order_4_rng: "rng (snd (motifs_order_4 c e w)) = rng w"
  by (simp add: motifs_order_4_eq)

lemma motifs_order_3_table: "fst (motifs_order_3 c e w) = fst (motifs_order_3 c e w0)"
  by (simp add: motifs_order_3_eq)

lemma motifs_order_4_table: "fst (motifs_order_4 c e w) = fst (motifs_order_4 c e w0)"
  by (simp add: motifs_order_4_eq)

lemma after_draw_rng: "rng (after_draw c h ord e1 g w) = g"
  by (simp add: after_draw_def motifs_order_3_eq motifs_order_4_eq)

lemma after_draw_calls:
  "ord = 3 \<or> ord = 4 \<Longrightarrow>
   calls (after_draw c h ord e1 g w) = calls w @ round_calls c ord (get_edges c h None) e1"
  by (auto simp: after_draw_def motifs_order_3_eq motifs_order_4_eq round_calls_def
        classification_calls_def)

lemma config_rounds_Suc_Inr:
  assumes "directed_configuration_model c (rng w) (get_edges c h None) = Inr (e1, g)"
    and "ord = 3 \<or> ord = 4"
  shows "config_rounds c h ord (Suc n) results w =
           config_rounds c h ord n
             (results @ [fst (if ord = 3 then motifs_order_3 c e1 w0 else motifs_order_4 c e1 w0)])
             (after_draw c h ord e1 g w)"
proof (cases "ord = 3")
  case True
  with assms(1) show ?thesis
    by (simp add: Let_def motifs_order_3_eq after_draw_def)
next
  case False
  with assms(2) have "ord = 4" by simp
  with assms(1) show ?thesis
    by (simp add: Let_def motifs_order_4_eq after_draw_def)
qed

lemma config_rounds_fst:
  assumes "ord = 3 \<or> ord = 4"
  shows "fst (config_rounds c h ord n results w) =
           (case first_failure c (get_edges c h None) n (rng w) of
              Some x \<Rightarrow> Inl (Raised x)
            | None \<Rightarrow>
                Inr (results @
                     map (\<lambda>e. fst (if ord = 3 then motifs_order_3 c e w0 else motifs_order_4 c e w0))
                       (draws c (get_edges c h None) n (rng w))))"
proof (induction n arbitrary: results w)
  case 0
  show ?case by simp
next
  case (Suc n)
  show ?case
  proof (cases "directed_configuration_model c (rng w) (get_edges c h None)")
    case (Inl x)
    then show ?thesis by (simp add: Let_def)
  next
    case (Inr p)
    obtain e1 g where p: "p = (e1, g)" by (cases p)
    note step = config_rounds_Suc_Inr [OF Inr [unfolded p] assms, of n results w0]
    show ?thesis
      unfolding step Suc.IH using Inr p
      by (simp add: after_draw_rng split: option.splits)
  qed
qed

lemma config_rounds_calls:
  assumes "ord = 3 \<or> ord = 4"
  shows "calls (snd (config_rounds c h ord n results w)) =
           calls w
           @ concat (map (round_calls c ord (get_edges c h None))
                       (draws c (get_edges c h None) n (rng w)))
           @ (case first_failure c (get_edges c h None) n (rng w) of
                Some x \<Rightarrow> [GetEdges None, ConfigModel (get_edges c h None)]
              | None \<Rightarrow> [])"
proof (induction n arbitrary: results w)
  case 0
  show ?case by simp
next
  case (Suc n)
  show ?case
  proof (cases "directed_configuration_model c (rng w) (get_edges c h None)")
    case (Inl x)
    then show ?thesis by (simp add: Let_def)
  next
    case (Inr p)
    obtain e1 g where p: "p = (e1, g)" by (cases p)
    note step = config_rounds_Suc_Inr [OF Inr [unfolded p] assms, of n results w]
    show ?thesis
      unfolding step Suc.IH using Inr p assms
      by (simp add: after_draw_rng after_draw_calls split: option.splits)
  qed
qed

lemma draws_length:
  "length (draws c es n g) \<le> n"
  by (induction n arbitrary: g) (simp_all split: sum.splits prod.splits)

lemma draws_full_iff:
  "length (draws c es n g) = n \<longleftrightarrow> first_failure c es n g = None"
  using draws_length [of c es _ _]
  by (induction n arbitrary: g) (auto split: sum.splits prod.splits simp: le_Suc_eq)

lemma norm_delta_loop_Some:
  "norm_delta_loop obs nv idxs acc = Some nd \<Longrightarrow>
     nd = acc @ map (\<lambda>i. (fst (obs ! i), nv ! i)) idxs \<and>
     list_all (\<lambda>i. i < length obs \<and> i < length nv) idxs"
proof (induction idxs arbitrary: acc)
  case Nil
  then show ?case by simp
next
  case (Cons i idxs)
  from Cons.prems have ok: "i < length obs \<and> i < length nv"
    by (simp split: if_splits)
  with Cons.prems have "norm_delta_loop obs nv idxs (acc @ [(fst (obs ! i), nv ! i)]) = Some nd"
    by simp
  from Cons.IH [OF this] ok show ?case by simp
qed

lemma config_rounds_error:
  assumes "config_rounds c h ord n results w = (Inl e, w')"
    and "ord = 3 \<or> ord = 4"
  shows "\<exists>x. e = Raised x"
proof -
  have "fst (config_rounds c h ord n results w) = Inl e"
    using assms(1) by simp
  then show ?thesis
    unfolding config_rounds_fst [OF assms(2), of c h n results w w]
    by (auto split: option.splits)
qed

text \<open>The run at a supported order, in terms of its three stages.\<close>

lemma compute_supported:
  assumes "ord = 3 \<or> ord = 4"
  shows "compute_directed_motifs c h (Some ord) (Some r) w =
     (let cls = (if ord = 3 then motifs_order_3 c (get_edges c h (Some ord))
                 else motifs_order_4 c (get_edges c h (Some ord)))
                  (note_call (GetEdges (Some ord)) w);
          rounds = config_rounds c h ord (nat r) [] (snd cls)
      in case fst rounds of
           Inl e \<Rightarrow> (Inl e, snd rounds)
         | Inr results \<Rightarrow>
             (let delta = directed_diff_sum c (fst cls) results;
                  nv = norm_vector c delta;
                  w4 = note_call NormVector (note_call DiffSum (snd rounds))
              in case norm_delta_loop (fst cls) nv [0..<length delta] [] of
                   None \<Rightarrow> (Inl IndexError, w4)
                 | Some nd \<Rightarrow>
                     (Inr \<lparr>observed = fst cls, config_model = results, norm_delta = nd\<rparr>, w4)))"
  using assms
  by (auto simp: compute_directed_motifs_def Let_def
        split: prod.splits sum.splits option.splits)

lemma compute_defaults:
  "compute_directed_motifs c h order_arg runs_arg w =
     compute_directed_motifs c h
       (Some (case order_arg of None \<Rightarrow> 3 | Some k \<Rightarrow> k))
       (Some (case runs_arg of None \<Rightarrow> 10 | Some r \<Rightarrow> r)) w"
  by (simp add: compute_directed_motifs_def)

lemma compute_unsupported:
  assumes "ord \<noteq> 3" and "ord \<noteq> 4"
  shows "compute_directed_motifs c h (Some ord) runs w =
        (Inl (ValueError ''Exact computation of motifs of order > 5 is not available.''),
         note_call (GetEdges (Some ord)) w)"
  using assms by (simp add: compute_directed_motifs_def)

lemma compute_error_kind:
  assumes "ord = 3 \<or> ord = 4"
    and "fst (compute_directed_motifs c h (Some ord) (Some r) w) = Inl e"
  shows "e = IndexError \<or> (\<exists>x. e = Raised x)"
proof -
  let ?cls = "(if ord = 3 then motifs_order_3 c (get_edges c h (Some ord))
                 else motifs_order_4 c (get_edges c h (Some ord)))
                  (note_call (GetEdges (Some ord)) w)"
  obtain res w2 where cr: "config_rounds c h ord (nat r) [] (snd ?cls) = (res, w2)"
    by (cases "config_rounds c h ord (nat r) [] (snd ?cls)")
  show ?thesis
  proof (cases res)
    case (Inl e')
    with assms(2) cr have "e = e'"
      by (simp add: compute_supported [OF assms(1)] Let_def)
    with config_rounds_error [OF cr [unfolded Inl] assms(1)] show ?thesis by simp
  next
    case (Inr results)
    with assms(2) cr show ?thesis
      by (auto simp: compute_supported [OF assms(1)] Let_def split: option.splits)
  qed
qed

lemma classify_rng:
  "rng (snd ((if ord = 3 then motifs_order_3 c e else motifs_order_4 c e) w)) = rng w"
  by (simp add: motifs_order_3_rng motifs_order_4_rng)

lemma classify_calls:
  "ord = 3 \<or> ord = 4 \<Longrightarrow>
   calls (snd ((if ord = 3 then motifs_order_3 c e else motifs_order_4 c e) w))
     = calls w @ classification_calls c ord e"
  by (auto simp: motifs_order_3_calls motifs_order_4_calls)

lemma classify_table:
  "fst ((if ord = 3 then motifs_order_3 c e else motifs_order_4 c e) w)
     = fst (if ord = 3 then motifs_order_3 c e w0 else motifs_order_4 c e w0)"
  using motifs_order_3_table [of c e w w0] motifs_order_4_table [of c e w w0] by simp

lemma compute_calls:
  assumes "ord = 3 \<or> ord = 4"
  shows "calls (snd (compute_directed_motifs c h (Some ord) (Some r) w)) =
           calls w @ [GetEdges (Some ord)]
           @ classification_calls c ord (get_edges c h (Some ord))
           @ concat (map (round_calls c ord (get_edges c h None))
                       (draws c (get_edges c h None) (nat r) (rng w)))
           @ (case first_failure c (get_edges c h None) (nat r) (rng w) of
                Some x \<Rightarrow> [GetEdges None, ConfigModel (get_edges c h None)]
              | None \<Rightarrow> [DiffSum, NormVector])"
proof -
  let ?cls = "(if ord = 3 then motifs_order_3 c (get_edges c h (Some ord))
                 else motifs_order_4 c (get_edges c h (Some ord)))
                  (note_call (GetEdges (Some ord)) w)"
  let ?rounds = "config_rounds c h ord (nat r) [] (snd ?cls)"
  have r0: "rng (snd ?cls) = rng w"
    using classify_rng [of ord c "get_edges c h (Some ord)" "note_call (GetEdges (Some ord)) w"]
    by simp
  have c0: "calls (snd ?cls) = calls w @ [GetEdges (Some ord)]
              @ classification_calls c ord (get_edges c h (Some ord))"
    using classify_calls [OF assms, of c "get_edges c h (Some ord)" "note_call (GetEdges (Some ord)) w"]
    by simp
  note f = config_rounds_fst [OF assms, of c h "nat r" "[]" "snd ?cls" w, unfolded r0]
  note l = config_rounds_calls [OF assms, of c h "nat r" "[]" "snd ?cls", unfolded r0 c0]
  show ?thesis
  proof (cases "first_failure c (get_edges c h None) (nat r) (rng w)")
    case None
    with f have fr: "\<exists>results. fst ?rounds = Inr results" by simp
    then obtain results where fr: "fst ?rounds = Inr results" ..
    have "calls (snd (compute_directed_motifs c h (Some ord) (Some r) w))
            = calls (snd ?rounds) @ [DiffSum, NormVector]"
      unfolding compute_supported [OF assms] Let_def fr
      by (simp split: option.splits)
    with l None show ?thesis by simp
  next
    case (Some x)
    with f l show ?thesis
      by (simp add: compute_supported [OF assms] Let_def)
  qed
qed

lemma compute_fst_failure:
  assumes "ord = 3 \<or> ord = 4"
    and "first_failure c (get_edges c h None) (nat r) (rng w) = Some x"
  shows "fst (compute_directed_motifs c h (Some ord) (Some r) w) = Inl (Raised x)"
proof -
  let ?cls = "(if ord = 3 then motifs_order_3 c (get_edges c h (Some ord))
                 else motifs_order_4 c (get_edges c h (Some ord)))
                  (note_call (GetEdges (Some ord)) w)"
  have r0: "rng (snd ?cls) = rng w"
    using classify_rng [of ord c "get_edges c h (Some ord)" "note_call (GetEdges (Some ord)) w"]
    by simp
  note f = config_rounds_fst [OF assms(1), of c h "nat r" "[]" "snd ?cls" w, unfolded r0]
  from f assms(2) show ?thesis
    by (simp add: compute_supported [OF assms(1)] Let_def)
qed

lemma compute_success:
  assumes "compute_directed_motifs c h (Some ord) (Some r) w = (Inr out, w')"
  shows "(ord = 3 \<or> ord = 4)
     \<and> first_failure c (get_edges c h None) (nat r) (rng w) = None
     \<and> observed out = fst (if ord = 3 then motifs_order_3 c (get_edges c h (Some ord)) w0
                            else motifs_order_4 c (get_edges c h (Some ord)) w0)
     \<and> config_model out =
         map (\<lambda>e. fst (if ord = 3 then motifs_order_3 c e w0 else motifs_order_4 c e w0))
           (draws c (get_edges c h None) (nat r) (rng w))
     \<and> norm_delta out =
         map (\<lambda>i. (fst (observed out ! i),
                    norm_vector c (directed_diff_sum c (observed out) (config_model out)) ! i))
           [0..<length (directed_diff_sum c (observed out) (config_model out))]
     \<and> length (directed_diff_sum c (observed out) (config_model out)) \<le> length (observed out)"
proof -
  have sup: "ord = 3 \<or> ord = 4"
  proof (rule ccontr)
    assume "\<not> (ord = 3 \<or> ord = 4)"
    then have "ord \<noteq> 3" "ord \<noteq> 4" by simp_all
    from compute_unsupported [OF this, of c h "Some r" w] assms show False by simp
  qed
  let ?cls = "(if ord = 3 then motifs_order_3 c (get_edges c h (Some ord))
                 else motifs_order_4 c (get_edges c h (Some ord)))
                  (note_call (GetEdges (Some ord)) w)"
  have r0: "rng (snd ?cls) = rng w"
    using classify_rng [of ord c "get_edges c h (Some ord)" "note_call (GetEdges (Some ord)) w"]
    by simp
  note f = config_rounds_fst [OF sup, of c h "nat r" "[]" "snd ?cls" w0, unfolded r0]
  have ff: "first_failure c (get_edges c h None) (nat r) (rng w) = None"
  proof (cases "first_failure c (get_edges c h None) (nat r) (rng w)")
    case None then show ?thesis .
  next
    case (Some x)
    from compute_fst_failure [OF sup Some] assms show ?thesis by simp
  qed
  let ?results = "map (\<lambda>e. fst (if ord = 3 then motifs_order_3 c e w0 else motifs_order_4 c e w0))
           (draws c (get_edges c h None) (nat r) (rng w))"
  have fr: "fst (config_rounds c h ord (nat r) [] (snd ?cls)) = Inr ?results"
    using f ff by simp
  let ?delta = "directed_diff_sum c (fst ?cls) ?results"
  from assms fr obtain nd where
    nd: "norm_delta_loop (fst ?cls) (norm_vector c ?delta) [0..<length ?delta] [] = Some nd"
    and out: "out = \<lparr>observed = fst ?cls, config_model = ?results, norm_delta = nd\<rparr>"
    by (auto simp: compute_supported [OF sup] Let_def split: option.splits)
  from norm_delta_loop_Some [OF nd] have
    nd_eq: "nd = map (\<lambda>i. (fst (fst ?cls ! i), norm_vector c ?delta ! i)) [0..<length ?delta]"
    and ok: "list_all (\<lambda>i. i < length (fst ?cls) \<and> i < length (norm_vector c ?delta))
               [0..<length ?delta]"
    by simp_all
  have len: "length ?delta \<le> length (fst ?cls)"
  proof (cases "length ?delta")
    case 0 then show ?thesis by simp
  next
    case (Suc k)
    then have "k \<in> set [0..<length ?delta]" by simp
    with ok have "k < length (fst ?cls)" unfolding list_all_iff by blast
    with Suc show ?thesis by simp
  qed
  have obs: "observed out = fst ?cls" and cm: "config_model out = ?results"
    and ndo: "norm_delta out = nd"
    using out by simp_all
  have tbl: "fst ?cls = fst (if ord = 3 then motifs_order_3 c (get_edges c h (Some ord)) w0
                            else motifs_order_4 c (get_edges c h (Some ord)) w0)"
    by (rule classify_table)
  show ?thesis
    using sup ff tbl nd_eq len unfolding obs cm ndo by simp
qed

lemma round_calls_config:
  "ord = 3 \<or> ord = 4 \<Longrightarrow>
   filter is_config_model_call (round_calls c ord es e1) = [ConfigModel es]"
  by (auto simp: round_calls_def classification_calls_def)

lemma rounds_config_count:
  "ord = 3 \<or> ord = 4 \<Longrightarrow>
   length (filter is_config_model_call (concat (map (round_calls c ord es) ds))) = length ds"
  by (induction ds) (simp_all add: round_calls_config)

lemma classification_calls_config:
  "filter is_config_model_call (classification_calls c ord e) = []"
  by (simp add: classification_calls_def)

lemma rounds_not_full_3:
  "filter is_not_full_call (concat (map (round_calls c 3 es) ds)) = []"
  by (induction ds) (simp_all add: round_calls_def classification_calls_def)

lemma draws_None_length:
  "first_failure c es n g = None \<Longrightarrow> length (draws c es n g) = n"
  by (simp add: draws_full_iff)

lemma draws_Some_length:
  "first_failure c es n g = Some x \<Longrightarrow> length (draws c es n g) < n"
  using draws_length [of c es n g] draws_full_iff [of c es n g] by simp

lemma compute_config_calls:
  assumes "ord = 3 \<or> ord = 4"
  shows "length (filter is_config_model_call
                   (calls (snd (compute_directed_motifs c h (Some ord) (Some r) w)))) =
           length (filter is_config_model_call (calls w))
           + length (draws c (get_edges c h None) (nat r) (rng w))
           + (case first_failure c (get_edges c h None) (nat r) (rng w) of
                Some x \<Rightarrow> 1 | None \<Rightarrow> 0)"
  by (simp add: compute_calls [OF assms] rounds_config_count [OF assms]
        classification_calls_config split: option.splits)

lemma map_nth_take: "n \<le> length xs \<Longrightarrow> map ((!) xs) [0..<n] = take n xs"
  by (induction n) (simp_all add: take_Suc_conv_app_nth)

lemma compute_success_delta:
  assumes "compute_directed_motifs c h (Some ord) (Some r) w = (Inr out, w')"
  shows "norm_delta out =
         map (\<lambda>i. (fst (observed out ! i),
                    norm_vector c (directed_diff_sum c (observed out) (config_model out)) ! i))
           [0..<length (directed_diff_sum c (observed out) (config_model out))]"
    and "length (directed_diff_sum c (observed out) (config_model out)) \<le> length (observed out)"
  using compute_success [OF assms, of w] by blast+



































lemma directed_diff_sum_spec_length:
  "length (directed_diff_sum_spec obs rounds) = length obs"
  by (simp add: directed_diff_sum_spec_def)

lemma norm_vector_spec_length: "length (norm_vector_spec nrm delta) = length delta"
  by (simp add: norm_vector_spec_def)

lemma norm_delta_loop_total:
  "list_all (\<lambda>i. i < length obs \<and> i < length nv) idxs \<Longrightarrow>
   norm_delta_loop obs nv idxs acc \<noteq> None"
  by (induction idxs arbitrary: acc) simp_all

lemma compute_index_error:
  assumes "fst (compute_directed_motifs c h (Some ord) (Some r) w) = Inl IndexError"
  shows "\<exists>obs results.
           norm_delta_loop obs (norm_vector c (directed_diff_sum c obs results))
             [0..<length (directed_diff_sum c obs results)] [] = None"
proof (cases "ord = 3 \<or> ord = 4")
  case False
  then have "ord \<noteq> 3" "ord \<noteq> 4" by simp_all
  from compute_unsupported [OF this, of c h "Some r" w] assms show ?thesis by simp
next
  case True
  let ?cls = "(if ord = 3 then motifs_order_3 c (get_edges c h (Some ord))
                 else motifs_order_4 c (get_edges c h (Some ord)))
                  (note_call (GetEdges (Some ord)) w)"
  obtain res w2 where cr: "config_rounds c h ord (nat r) [] (snd ?cls) = (res, w2)"
    by (cases "config_rounds c h ord (nat r) [] (snd ?cls)")
  show ?thesis
  proof (cases res)
    case (Inl e)
    with assms cr have "e = IndexError"
      by (simp add: compute_supported [OF True] Let_def)
    with config_rounds_error [OF cr [unfolded Inl] True] show ?thesis by simp
  next
    case (Inr results)
    with assms cr have
      "norm_delta_loop (fst ?cls) (norm_vector c (directed_diff_sum c (fst ?cls) results))
             [0..<length (directed_diff_sum c (fst ?cls) results)] [] = None"
      by (simp add: compute_supported [OF True] Let_def split: option.splits if_splits)
    then show ?thesis by blast
  qed
qed

section \<open>The claims\<close>

text \<open>
  C3. For every order other than 3 and 4 (2 and 5 among them) \<open>compute_directed_motifs\<close>
  raises the \<open>ValueError\<close> of line 70, and the only collaborator call made before it is
  \<open>get_edges(up_to=order)\<close> of line 58: no classification pass and no configuration-model
  round. For order 3 and order 4 no \<open>ValueError\<close> is raised, whatever the collaborators do.
\<close>

theorem unsupported_order_raises:
  "(ord \<noteq> 3 \<and> ord \<noteq> 4 \<longrightarrow>
      compute_directed_motifs c h (Some ord) runs w =
        (Inl (ValueError ''Exact computation of motifs of order > 5 is not available.''),
         note_call (GetEdges (Some ord)) w)
      \<and> filter is_classification_call
            (calls (snd (compute_directed_motifs c h (Some ord) runs w)))
          = filter is_classification_call (calls w)
      \<and> filter is_config_model_call
            (calls (snd (compute_directed_motifs c h (Some ord) runs w)))
          = filter is_config_model_call (calls w))
   \<and> (ord = 3 \<or> ord = 4 \<longrightarrow>
        (\<forall>msg. fst (compute_directed_motifs c h (Some ord) runs w) \<noteq> Inl (ValueError msg)))"
proof (intro conjI impI allI)
  assume "ord \<noteq> 3 \<and> ord \<noteq> 4"
  then have run: "compute_directed_motifs c h (Some ord) runs w =
        (Inl (ValueError ''Exact computation of motifs of order > 5 is not available.''),
         note_call (GetEdges (Some ord)) w)"
    by (simp add: compute_unsupported)
  then show "compute_directed_motifs c h (Some ord) runs w =
        (Inl (ValueError ''Exact computation of motifs of order > 5 is not available.''),
         note_call (GetEdges (Some ord)) w)" .
  from run show "filter is_classification_call
            (calls (snd (compute_directed_motifs c h (Some ord) runs w)))
          = filter is_classification_call (calls w)"
    by simp
  from run show "filter is_config_model_call
            (calls (snd (compute_directed_motifs c h (Some ord) runs w)))
          = filter is_config_model_call (calls w)"
    by simp
next
  fix msg
  assume sup: "ord = 3 \<or> ord = 4"
  show "fst (compute_directed_motifs c h (Some ord) runs w) \<noteq> Inl (ValueError msg)"
  proof
    assume "fst (compute_directed_motifs c h (Some ord) runs w) = Inl (ValueError msg)"
    then have "fst (compute_directed_motifs c h (Some ord)
                 (Some (case runs of None \<Rightarrow> 10 | Some r \<Rightarrow> r)) w) = Inl (ValueError msg)"
      using compute_defaults [of c h "Some ord" runs w] by simp
    from compute_error_kind [OF sup this] show False by auto
  qed
qed

theorem unsupported_order_raises_witness:
  "compute_directed_motifs (spec_collab taxicab_norm) scenario_hypergraph (Some 5) (Some 2)
       two_draws_world =
     (Inl (ValueError ''Exact computation of motifs of order > 5 is not available.''),
      note_call (GetEdges (Some 5)) two_draws_world)
   \<and> compute_directed_motifs (spec_collab taxicab_norm) scenario_hypergraph (Some 2) (Some 2)
       two_draws_world =
     (Inl (ValueError ''Exact computation of motifs of order > 5 is not available.''),
      note_call (GetEdges (Some 2)) two_draws_world)
   \<and> fst (compute_directed_motifs (spec_collab taxicab_norm) scenario_hypergraph (Some 3) (Some 2)
       two_draws_world) \<noteq> Inl (ValueError ''Exact computation of motifs of order > 5 is not available.'')
   \<and> fst (compute_directed_motifs (spec_collab taxicab_norm) scenario_hypergraph (Some 4) (Some 2)
       two_draws_world) \<noteq> Inl (ValueError ''Exact computation of motifs of order > 5 is not available.'')"
  using unsupported_order_raises [of 5 "spec_collab taxicab_norm" scenario_hypergraph "Some 2" two_draws_world]
    unsupported_order_raises [of 2 "spec_collab taxicab_norm" scenario_hypergraph "Some 2" two_draws_world]
    unsupported_order_raises [of 3 "spec_collab taxicab_norm" scenario_hypergraph "Some 2" two_draws_world]
    unsupported_order_raises [of 4 "spec_collab taxicab_norm" scenario_hypergraph "Some 2" two_draws_world]
  by simp

text \<open>
  C8. At order 3 classification is the full pass alone: \<open>_motifs_order_3\<close> returns the
  list of pairs the full pass returned, as it is, after the single call
  \<open>_directed_motifs_ho_full(edges, 3)\<close>; the observed table of a run at order 3 is that list
  for the edges of \<open>get_edges(up_to=3)\<close>; and the whole run, rounds included, makes no call
  of the not-full pass. No dict is built on this path.
\<close>

theorem order_3_full_pass_only:
  "fst (motifs_order_3 c edges w) = fst (directed_motifs_ho_full c edges 3)
   \<and> calls (snd (motifs_order_3 c edges w)) = calls w @ [HoFull edges 3]
   \<and> (compute_directed_motifs c h (Some 3) runs w = (Inr out, w') \<longrightarrow>
        observed out = fst (directed_motifs_ho_full c (get_edges c h (Some 3)) 3))
   \<and> filter is_not_full_call (calls (snd (compute_directed_motifs c h (Some 3) runs w)))
        = filter is_not_full_call (calls w)"
proof (intro conjI impI)
  show "fst (motifs_order_3 c edges w) = fst (directed_motifs_ho_full c edges 3)"
    by (simp add: motifs_order_3_eq)
  show "calls (snd (motifs_order_3 c edges w)) = calls w @ [HoFull edges 3]"
    by (simp add: motifs_order_3_eq)
next
  assume "compute_directed_motifs c h (Some 3) runs w = (Inr out, w')"
  then have "compute_directed_motifs c h (Some 3)
               (Some (case runs of None \<Rightarrow> 10 | Some r \<Rightarrow> r)) w = (Inr out, w')"
    using compute_defaults [of c h "Some 3" runs w] by simp
  from compute_success [OF this, of w]
  show "observed out = fst (directed_motifs_ho_full c (get_edges c h (Some 3)) 3)"
    by (simp add: motifs_order_3_eq)
next
  have "calls (snd (compute_directed_motifs c h (Some 3) runs w))
          = calls (snd (compute_directed_motifs c h (Some 3)
               (Some (case runs of None \<Rightarrow> 10 | Some r \<Rightarrow> r)) w))"
    using compute_defaults [of c h "Some 3" runs w] by simp
  then show "filter is_not_full_call (calls (snd (compute_directed_motifs c h (Some 3) runs w)))
        = filter is_not_full_call (calls w)"
    by (simp add: compute_calls rounds_not_full_3 classification_calls_def split: option.splits)
qed

theorem order_3_full_pass_only_witness:
  "compute_directed_motifs (spec_collab taxicab_norm) scenario_hypergraph (Some 3) (Some 2)
       two_draws_world =
     (Inr \<lparr>observed = [([([0, 1], [2])], 1)],
           config_model = [[([([0, 1], [2])], 1)], [([([0], [1]), ([0, 1], [2])], 1)]],
           norm_delta = [([([0, 1], [2])], 1)]\<rparr>,
      \<lparr>rng = [],
        calls = [GetEdges (Some 3), HoFull [([1, 2], [3])] 3,
                 GetEdges None, ConfigModel scenario_edges,
                 HoFull [([1, 3], [2]), ([2, 3], [1, 4])] 3,
                 GetEdges None, ConfigModel scenario_edges,
                 HoFull [([1, 2], [4]), ([2], [1])] 3, DiffSum, NormVector]\<rparr>)
   \<and> fst (directed_motifs_ho_full (spec_collab taxicab_norm)
            (get_edges (spec_collab taxicab_norm) scenario_hypergraph (Some 3)) 3)
       = [([([0, 1], [2])], 1)]"
proof -
  let ?out = "\<lparr>observed = [([([0, 1], [2])], 1)],
           config_model = [[([([0, 1], [2])], 1)], [([([0], [1]), ([0, 1], [2])], 1)]],
           norm_delta = [([([0, 1::nat], [2::nat])], 1::int)]\<rparr>"
  let ?w = "\<lparr>rng = [],
        calls = [GetEdges (Some 3), HoFull [([1, 2], [3])] 3,
                 GetEdges None, ConfigModel scenario_edges,
                 HoFull [([1, 3], [2]), ([2, 3], [1, 4])] 3,
                 GetEdges None, ConfigModel scenario_edges,
                 HoFull [([1, 2], [4]), ([2], [1])] 3, DiffSum, NormVector]\<rparr>"
  have run: "compute_directed_motifs (spec_collab taxicab_norm) scenario_hypergraph (Some 3) (Some 2)
       two_draws_world = (Inr ?out, ?w)"
    by code_simp
  from order_3_full_pass_only [of "spec_collab taxicab_norm" scenario_edges two_draws_world
         scenario_hypergraph "Some 2" ?out ?w] run
  show ?thesis by simp
qed

text \<open>
  C10. A call that leaves \<open>runs_config_model\<close> out behaves as the call with
  \<open>runs_config_model=10\<close>: the two runs are equal, and a run that returns holds ten tables
  under \<open>'config_model'\<close> after ten calls of the configuration model.
\<close>

theorem default_is_ten_rounds:
  "compute_directed_motifs c h order_arg None w = compute_directed_motifs c h order_arg (Some 10) w
   \<and> (compute_directed_motifs c h order_arg None w = (Inr out, w') \<longrightarrow>
        length (config_model out) = 10
        \<and> length (filter is_config_model_call (calls w'))
            = length (filter is_config_model_call (calls w)) + 10)"
proof (intro conjI impI)
  show eq: "compute_directed_motifs c h order_arg None w
              = compute_directed_motifs c h order_arg (Some 10) w"
    by (simp add: compute_directed_motifs_def)
  assume "compute_directed_motifs c h order_arg None w = (Inr out, w')"
  then have run: "compute_directed_motifs c h
               (Some (case order_arg of None \<Rightarrow> 3 | Some k \<Rightarrow> k)) (Some 10) w = (Inr out, w')"
    using compute_defaults [of c h order_arg None w] by simp
  note s = compute_success [OF run, of w]
  from s have sup: "(case order_arg of None \<Rightarrow> 3 | Some k \<Rightarrow> k) = 3
                  \<or> (case order_arg of None \<Rightarrow> 3 | Some k \<Rightarrow> k) = (4::int)"
    and ff: "first_failure c (get_edges c h None) (nat 10) (rng w) = None"
    by simp_all
  from s draws_None_length [OF ff] show "length (config_model out) = 10"
    by simp
  from compute_config_calls [OF sup, of c h 10 w] run ff draws_None_length [OF ff]
  show "length (filter is_config_model_call (calls w'))
            = length (filter is_config_model_call (calls w)) + 10"
    by simp
qed

theorem default_is_ten_rounds_witness:
  "fst (compute_directed_motifs (spec_collab taxicab_norm) scenario_hypergraph (Some 3) None
          ten_draws_world)
     = Inr \<lparr>observed = [([([0, 1], [2])], 1)],
            config_model = replicate 10 [([([0, 1], [2])], 1)],
            norm_delta = [([([0, 1], [2])], 0)]\<rparr>
   \<and> length (replicate 10 [([([0, 1::nat], [2::nat])], 1::int)]) = 10
   \<and> compute_directed_motifs (spec_collab taxicab_norm) scenario_hypergraph (Some 3) None
       ten_draws_world
     = compute_directed_motifs (spec_collab taxicab_norm) scenario_hypergraph (Some 3) (Some 10)
       ten_draws_world"
proof -
  let ?run = "compute_directed_motifs (spec_collab taxicab_norm)
       scenario_hypergraph (Some 3) None ten_draws_world"
  let ?out = "\<lparr>observed = [([([0, 1], [2])], 1)],
            config_model = replicate 10 [([([0, 1], [2])], 1)],
            norm_delta = [([([0, 1::nat], [2::nat])], 0::int)]\<rparr>"
  have ev: "fst ?run = Inr ?out" by code_simp
  then have run: "?run = (Inr ?out, snd ?run)" by (cases ?run) simp
  from default_is_ten_rounds [of "spec_collab taxicab_norm" scenario_hypergraph "Some 3"
         ten_draws_world ?out "snd ?run"] run ev
  show ?thesis by simp
qed


text \<open>
  C7. A run with \<open>runs_config_model = R\<close> that returns has exactly \<open>R\<close> tables under
  \<open>'config_model'\<close> (none for \<open>R\<close> below one), the table at position \<open>i\<close> being the
  classification of the edge list drawn in round \<open>i + 1\<close>, and the configuration model
  has been called \<open>R\<close> times.
\<close>

theorem one_table_per_round_in_order:
  assumes "compute_directed_motifs c h (Some ord) (Some r) w = (Inr out, w')"
  shows "length (config_model out) = nat r
     \<and> length (draws c (get_edges c h None) (nat r) (rng w)) = nat r
     \<and> (\<forall>i < nat r.
           config_model out ! i =
             fst (if ord = 3
                  then motifs_order_3 c (draws c (get_edges c h None) (nat r) (rng w) ! i) w0
                  else motifs_order_4 c (draws c (get_edges c h None) (nat r) (rng w) ! i) w0))
     \<and> length (filter is_config_model_call (calls w'))
           = length (filter is_config_model_call (calls w)) + nat r"
proof -
  note s = compute_success [OF assms, of w0]
  from s have sup: "ord = 3 \<or> ord = 4"
    and ff: "first_failure c (get_edges c h None) (nat r) (rng w) = None"
    and cm: "config_model out =
         map (\<lambda>e. fst (if ord = 3 then motifs_order_3 c e w0 else motifs_order_4 c e w0))
           (draws c (get_edges c h None) (nat r) (rng w))"
    by simp_all
  note len = draws_None_length [OF ff]
  have cnt: "length (filter is_config_model_call (calls w'))
           = length (filter is_config_model_call (calls w)) + nat r"
    using compute_config_calls [OF sup, of c h r w] assms ff len by simp
  from cm len cnt show ?thesis by simp
qed

theorem one_table_per_round_in_order_witness:
  "fst (compute_directed_motifs (spec_collab taxicab_norm) scenario_hypergraph (Some 3) (Some 2)
          two_draws_world)
     = Inr \<lparr>observed = [([([0, 1], [2])], 1)],
            config_model = [[([([0, 1], [2])], 1)], [([([0], [1]), ([0, 1], [2])], 1)]],
            norm_delta = [([([0, 1], [2])], 1)]\<rparr>
   \<and> draws (spec_collab taxicab_norm) scenario_edges 2 (rng two_draws_world)
       = [[([1, 3], [2]), ([2, 3], [1, 4])], [([1, 2], [4]), ([2], [1])]]
   \<and> fst (motifs_order_3 (spec_collab taxicab_norm) [([1, 3], [2]), ([2, 3], [1, 4])]
            two_draws_world) = [([([0, 1], [2])], 1)]
   \<and> fst (motifs_order_3 (spec_collab taxicab_norm) [([1, 2], [4]), ([2], [1])]
            two_draws_world) = [([([0], [1]), ([0, 1], [2])], 1)]"
proof -
  let ?run = "compute_directed_motifs (spec_collab taxicab_norm) scenario_hypergraph (Some 3)
                (Some 2) two_draws_world"
  let ?out = "\<lparr>observed = [([([0, 1], [2])], 1)],
            config_model = [[([([0, 1], [2])], 1)], [([([0], [1]), ([0, 1], [2])], 1)]],
            norm_delta = [([([0, 1::nat], [2::nat])], 1::int)]\<rparr>"
  have ev: "fst ?run = Inr ?out" by code_simp
  then have run: "?run = (Inr ?out, snd ?run)" by (cases ?run) simp
  have d: "draws (spec_collab taxicab_norm) scenario_edges 2 (rng two_draws_world)
       = [[([1, 3], [2]), ([2, 3], [1, 4])], [([1, 2], [4]), ([2], [1])]]"
    by code_simp
  have g: "get_edges (spec_collab taxicab_norm) scenario_hypergraph None = scenario_edges"
    by code_simp
  have q: "\<forall>i<2. config_model ?out ! i =
      fst (motifs_order_3 (spec_collab taxicab_norm)
             (draws (spec_collab taxicab_norm) scenario_edges 2 (rng two_draws_world) ! i)
             two_draws_world)"
    using one_table_per_round_in_order [OF run, of two_draws_world] by (simp add: g)
  from q [rule_format, of 0] have "config_model ?out ! 0 =
      fst (motifs_order_3 (spec_collab taxicab_norm) [([1, 3], [2]), ([2, 3], [1, 4])]
            two_draws_world)"
    unfolding d by simp
  moreover from q [rule_format, of 1] have "config_model ?out ! 1 =
      fst (motifs_order_3 (spec_collab taxicab_norm) [([1, 2], [4]), ([2], [1])]
            two_draws_world)"
    unfolding d by simp
  ultimately show ?thesis using ev d by simp
qed

text \<open>
  C4. In a run that returns, the observed table is the classification of
  \<open>get_edges(up_to=order)\<close>, while the table of each round is the classification of the
  list the configuration model drew from \<open>get_edges()\<close>, the call without cutoff. The log
  shows every collaborator call of the run: between the draw of a round and its
  classification nothing is called, and the list classified is the list drawn.
\<close>

theorem observed_filtered_rounds_unfiltered:
  assumes "compute_directed_motifs c h (Some ord) (Some r) w = (Inr out, w')"
  shows "observed out =
           fst (if ord = 3 then motifs_order_3 c (get_edges c h (Some ord)) w0
                else motifs_order_4 c (get_edges c h (Some ord)) w0)
     \<and> config_model out =
           map (\<lambda>e. fst (if ord = 3 then motifs_order_3 c e w0 else motifs_order_4 c e w0))
             (draws c (get_edges c h None) (nat r) (rng w))
     \<and> calls w' =
           calls w @ [GetEdges (Some ord)]
           @ classification_calls c ord (get_edges c h (Some ord))
           @ concat (map (round_calls c ord (get_edges c h None))
                       (draws c (get_edges c h None) (nat r) (rng w)))
           @ [DiffSum, NormVector]"
proof -
  note s = compute_success [OF assms, of w0]
  from s have sup: "ord = 3 \<or> ord = 4"
    and ff: "first_failure c (get_edges c h None) (nat r) (rng w) = None"
    by simp_all
  from compute_calls [OF sup, of c h r w] assms ff
  have "calls w' =
           calls w @ [GetEdges (Some ord)]
           @ classification_calls c ord (get_edges c h (Some ord))
           @ concat (map (round_calls c ord (get_edges c h None))
                       (draws c (get_edges c h None) (nat r) (rng w)))
           @ [DiffSum, NormVector]"
    by simp
  with s show ?thesis by simp
qed


theorem observed_filtered_rounds_unfiltered_witness:
  "get_edges (spec_collab taxicab_norm) scenario_hypergraph (Some 3) = [([1, 2], [3])]
   \<and> get_edges (spec_collab taxicab_norm) scenario_hypergraph None
       = [([1, 2], [3]), ([2, 3], [1, 4])]
   \<and> draws (spec_collab taxicab_norm) [([1, 2], [3]), ([2, 3], [1, 4])] 2 (rng two_draws_world)
       = [[([1, 3], [2]), ([2, 3], [1, 4])], [([1, 2], [4]), ([2], [1])]]
   \<and> calls (snd (compute_directed_motifs (spec_collab taxicab_norm) scenario_hypergraph (Some 3)
                   (Some 2) two_draws_world))
       = [GetEdges (Some 3), HoFull [([1, 2], [3])] 3,
          GetEdges None, ConfigModel [([1, 2], [3]), ([2, 3], [1, 4])],
          HoFull [([1, 3], [2]), ([2, 3], [1, 4])] 3,
          GetEdges None, ConfigModel [([1, 2], [3]), ([2, 3], [1, 4])],
          HoFull [([1, 2], [4]), ([2], [1])] 3,
          DiffSum, NormVector]"
proof -
  let ?run = "compute_directed_motifs (spec_collab taxicab_norm) scenario_hypergraph (Some 3)
                (Some 2) two_draws_world"
  let ?out = "\<lparr>observed = [([([0, 1], [2])], 1)],
            config_model = [[([([0, 1], [2])], 1)], [([([0], [1]), ([0, 1], [2])], 1)]],
            norm_delta = [([([0, 1::nat], [2::nat])], 1::int)]\<rparr>"
  have ev: "fst ?run = Inr ?out" by code_simp
  then have run: "?run = (Inr ?out, snd ?run)" by (cases ?run) simp
  have g3: "get_edges (spec_collab taxicab_norm) scenario_hypergraph (Some 3) = [([1, 2], [3])]"
    by code_simp
  have g: "get_edges (spec_collab taxicab_norm) scenario_hypergraph None
             = [([1, 2], [3]), ([2, 3], [1, 4])]"
    by code_simp
  have d: "draws (spec_collab taxicab_norm) [([1, 2], [3]), ([2, 3], [1, 4])] 2
             (rng two_draws_world)
       = [[([1, 3], [2]), ([2, 3], [1, 4])], [([1, 2], [4]), ([2], [1])]]"
    by code_simp
  have w: "calls two_draws_world = []" by (simp add: two_draws_world_def)
  from observed_filtered_rounds_unfiltered [OF run, of two_draws_world]
  have "calls (snd ?run) =
           calls two_draws_world @ [GetEdges (Some 3)]
           @ classification_calls (spec_collab taxicab_norm) 3 [([1, 2], [3])]
           @ concat (map (round_calls (spec_collab taxicab_norm) 3
                            [([1, 2], [3]), ([2, 3], [1, 4])])
                       (draws (spec_collab taxicab_norm) [([1, 2], [3]), ([2, 3], [1, 4])] 2
                          (rng two_draws_world)))
           @ [DiffSum, NormVector]"
    by (simp add: g3 g)
  then show ?thesis
    unfolding d using g3 g d w
    by (simp add: round_calls_def classification_calls_def)
qed

text \<open>
  C6. If the configuration model raises \<open>x\<close> in some round of a run at order 3 or 4, the
  run ends with that very exception: no output dict, one call of the configuration model
  for each round begun (the failing one included, so no second attempt), the failing call
  being the last call of the run, so nothing is classified in its place.
\<close>

theorem config_model_failure_propagates:
  assumes "ord = 3 \<or> ord = 4"
    and "first_failure c (get_edges c h None) (nat r) (rng w) = Some x"
  shows "fst (compute_directed_motifs c h (Some ord) (Some r) w) = Inl (Raised x)
     \<and> length (draws c (get_edges c h None) (nat r) (rng w)) < nat r
     \<and> length (filter is_config_model_call
                  (calls (snd (compute_directed_motifs c h (Some ord) (Some r) w))))
         = length (filter is_config_model_call (calls w))
           + length (draws c (get_edges c h None) (nat r) (rng w)) + 1
     \<and> last (calls (snd (compute_directed_motifs c h (Some ord) (Some r) w)))
         = ConfigModel (get_edges c h None)"
proof (intro conjI)
  show "fst (compute_directed_motifs c h (Some ord) (Some r) w) = Inl (Raised x)"
    by (rule compute_fst_failure [OF assms])
  show "length (draws c (get_edges c h None) (nat r) (rng w)) < nat r"
    by (rule draws_Some_length [OF assms(2)])
  show "length (filter is_config_model_call
                  (calls (snd (compute_directed_motifs c h (Some ord) (Some r) w))))
         = length (filter is_config_model_call (calls w))
           + length (draws c (get_edges c h None) (nat r) (rng w)) + 1"
    using compute_config_calls [OF assms(1), of c h r w] assms(2) by simp
  show "last (calls (snd (compute_directed_motifs c h (Some ord) (Some r) w)))
         = ConfigModel (get_edges c h None)"
    using compute_calls [OF assms(1), of c h r w] assms(2) by simp
qed

theorem config_model_failure_propagates_witness:
  "first_failure (spec_collab taxicab_norm)
      (get_edges (spec_collab taxicab_norm) five_node_hypergraph None) (nat 2) (rng failing_world)
     = Some ''DegreeSequenceInfeasibleError''
   \<and> fst (compute_directed_motifs (spec_collab taxicab_norm) five_node_hypergraph (Some 4) (Some 2)
            failing_world) = Inl (Raised ''DegreeSequenceInfeasibleError'')
   \<and> length (filter is_config_model_call
               (calls (snd (compute_directed_motifs (spec_collab taxicab_norm)
                              five_node_hypergraph (Some 4) (Some 2) failing_world)))) = 2"
proof -
  have ff: "first_failure (spec_collab taxicab_norm)
      (get_edges (spec_collab taxicab_norm) five_node_hypergraph None) (nat 2) (rng failing_world)
     = Some ''DegreeSequenceInfeasibleError''"
    by code_simp
  have d: "length (draws (spec_collab taxicab_norm)
      (get_edges (spec_collab taxicab_norm) five_node_hypergraph None) (nat 2) (rng failing_world))
     = 1"
    by code_simp
  have w: "calls failing_world = []" by (simp add: failing_world_def)
  have four: "(4::int) = 3 \<or> (4::int) = 4" by simp
  from config_model_failure_propagates [OF four ff] ff d w show ?thesis by simp
qed

text \<open>
  C2. With the Deviation Aggregator as the specification describes it, one difference
  vector for each class of the observed table, and whatever the other collaborators do: a
  run that returns has under \<open>'norm_delta'\<close> the signatures of \<open>'observed'\<close>, in the same
  order and in the same number. When the norm is taken vector by vector as well, the
  pairing loop of lines 95-96 never reads past the end of a list, so no run ends in
  \<open>IndexError\<close>.
\<close>

theorem norm_delta_aligned_with_observed:
  assumes "directed_diff_sum c = directed_diff_sum_spec"
  shows "(compute_directed_motifs c h order_arg runs_arg w = (Inr out, w') \<longrightarrow>
            map fst (norm_delta out) = map fst (observed out)
            \<and> length (norm_delta out) = length (observed out))
     \<and> (norm_vector c = norm_vector_spec nrm \<longrightarrow>
            fst (compute_directed_motifs c h order_arg runs_arg w) \<noteq> Inl IndexError)"
proof (intro conjI impI)
  assume "compute_directed_motifs c h order_arg runs_arg w = (Inr out, w')"
  then have run: "compute_directed_motifs c h
       (Some (case order_arg of None \<Rightarrow> 3 | Some k \<Rightarrow> k))
       (Some (case runs_arg of None \<Rightarrow> 10 | Some r \<Rightarrow> r)) w = (Inr out, w')"
    using compute_defaults [of c h order_arg runs_arg w] by simp
  let ?delta = "directed_diff_sum c (observed out) (config_model out)"
  have len: "length ?delta = length (observed out)"
    by (simp add: assms directed_diff_sum_spec_length)
  note nd = compute_success_delta(1) [OF run]
  have "map fst (norm_delta out) = map (\<lambda>i. fst (observed out ! i)) [0..<length ?delta]"
    unfolding nd by (simp add: comp_def)
  also have "\<dots> = map ((!) (map fst (observed out))) [0..<length (observed out)]"
    unfolding len by simp
  also have "\<dots> = map fst (observed out)"
    using map_nth [of "map fst (observed out)"] by simp
  finally show "map fst (norm_delta out) = map fst (observed out)" .
  have "length (norm_delta out) = length ?delta"
    unfolding nd by simp
  with len show "length (norm_delta out) = length (observed out)" by simp
next
  assume nv: "norm_vector c = norm_vector_spec nrm"
  show "fst (compute_directed_motifs c h order_arg runs_arg w) \<noteq> Inl IndexError"
  proof
    assume "fst (compute_directed_motifs c h order_arg runs_arg w) = Inl IndexError"
    then have "fst (compute_directed_motifs c h
       (Some (case order_arg of None \<Rightarrow> 3 | Some k \<Rightarrow> k))
       (Some (case runs_arg of None \<Rightarrow> 10 | Some r \<Rightarrow> r)) w) = Inl IndexError"
      using compute_defaults [of c h order_arg runs_arg w] by simp
    from compute_index_error [OF this] obtain obs results where
      bad: "norm_delta_loop obs (norm_vector c (directed_diff_sum c obs results))
             [0..<length (directed_diff_sum c obs results)] [] = None"
      by blast
    have "list_all (\<lambda>i. i < length obs
                       \<and> i < length (norm_vector c (directed_diff_sum c obs results)))
            [0..<length (directed_diff_sum c obs results)]"
      by (simp add: assms nv directed_diff_sum_spec_length norm_vector_spec_length
            list_all_iff)
    from norm_delta_loop_total [OF this, of "[]"] bad show False by simp
  qed
qed

theorem norm_delta_aligned_with_observed_witness:
  "directed_diff_sum (spec_collab taxicab_norm) = directed_diff_sum_spec
   \<and> fst (compute_directed_motifs (spec_collab taxicab_norm) five_node_hypergraph (Some 4)
            (Some 2) two_draws_world)
     = Inr \<lparr>observed =
              [([([0, 1], [2]), ([0, 2], [1, 3])], 1),
               ([([0], [1]), ([0], [2, 3]), ([1, 2], [3])], 1)],
            config_model = [[([([0, 1], [2]), ([0, 2], [1, 3])], 1)], []],
            norm_delta =
              [([([0, 1], [2]), ([0, 2], [1, 3])], 1),
               ([([0], [1]), ([0], [2, 3]), ([1, 2], [3])], 2)]\<rparr>
   \<and> map fst
        [([([0, 1], [2]), ([0, 2], [1, 3])], 1::int),
         ([([0::nat], [1]), ([0], [2, 3]), ([1, 2], [3::nat])], 2)]
     = map fst
        [([([0, 1], [2]), ([0, 2], [1, 3])], 1::int),
         ([([0::nat], [1]), ([0], [2, 3]), ([1, 2], [3::nat])], 1)]"
proof -
  let ?run = "compute_directed_motifs (spec_collab taxicab_norm) five_node_hypergraph (Some 4)
                (Some 2) two_draws_world"
  let ?out = "\<lparr>observed =
              [([([0, 1], [2]), ([0, 2], [1, 3])], 1::int),
               ([([0::nat], [1]), ([0], [2, 3]), ([1, 2], [3::nat])], 1)],
            config_model = [[([([0, 1], [2]), ([0, 2], [1, 3])], 1)], []],
            norm_delta =
              [([([0, 1], [2]), ([0, 2], [1, 3])], 1::int),
               ([([0], [1]), ([0], [2, 3]), ([1, 2], [3])], 2)]\<rparr>"
  have ev: "fst ?run = Inr ?out" by code_simp
  then have run: "?run = (Inr ?out, snd ?run)" by (cases ?run) simp
  have agg: "directed_diff_sum (spec_collab taxicab_norm) = directed_diff_sum_spec"
    by (simp add: spec_collab_def)
  from norm_delta_aligned_with_observed
         [OF agg, of five_node_hypergraph "Some 4" "Some 2" two_draws_world ?out "snd ?run"]
       run ev agg
  show ?thesis by simp
qed





end
